theory Spec2Isabelle
  imports Main
begin

section \<open>Data model of \<^verbatim>\<open>src/index.ts\<close>\<close>

text \<open>
  JavaScript strings are sequences of code units and \<^verbatim>\<open>length\<close> counts them; a
  \<^typ>\<open>string\<close> here is that sequence, one \<^typ>\<open>char\<close> per code unit.
  The numbers of the tool arguments are modelled as \<^typ>\<open>int\<close>, with exact
  addition and plain decimal digits. JavaScript's numbers are doubles and the schema
  also accepts fractions and numbers of any size: the definitions agree with the code
  for integer arguments as long as every number the code computes stays at or below
  \<open>MAX_SAFE_INTEGER\<close>, where doubles add without rounding and print as plain digits.
  A theorem about a start index that the caller chooses freely carries this bound as a
  hypothesis. Fractional arguments are outside the embedding.
  A thrown \<^verbatim>\<open>Error\<close> is a value \<open>Error message\<close>; a function that may throw (or a
  promise that may reject) returns \<open>error + 'a\<close>, with \<open>Inl\<close> for the throw.
\<close>

datatype error = Error string

text \<open>\<^verbatim>\<open>interface Image\<close>, \<^verbatim>\<open>interface ExtractedContent\<close> and
  \<^verbatim>\<open>interface FetchResult\<close> (its \<^verbatim>\<open>imageUrls?\<close> is optional).\<close>

record Image =
  src :: string
  alt :: string

record ExtractedContent =
  markdown :: string
  images :: "Image list"

record FetchResult =
  content :: string
  prefix :: string
  imageUrls :: "string list option"

text \<open>The parsed tool arguments, as \<^verbatim>\<open>FetchArgsSchema\<close> types them.\<close>

record FetchArgs =
  url :: string
  maxLength :: int
  startIndex :: int
  raw :: bool

text \<open>The numeric constraints of \<^verbatim>\<open>FetchArgsSchema\<close>:
  \<^verbatim>\<open>maxLength: z.number().positive().max(1000000)\<close> and
  \<^verbatim>\<open>startIndex: z.number().min(0)\<close>.\<close>

definition FetchArgsSchema_numbers :: "FetchArgs \<Rightarrow> bool" where
  "FetchArgsSchema_numbers a \<longleftrightarrow>
     0 < maxLength a \<and> maxLength a \<le> 1000000 \<and> 0 \<le> startIndex a"

section \<open>Strings and numbers of the host language\<close>

text \<open>\<^verbatim>\<open>Number.MAX_SAFE_INTEGER\<close>: a sum of two non-negative integers that does
  not exceed it is computed exactly by the doubles of the host language, and printed
  digit by digit.\<close>

definition MAX_SAFE_INTEGER :: int where
  "MAX_SAFE_INTEGER = 2 ^ 53 - 1"

text \<open>Decimal rendering of a number inside a template literal
  (\<^verbatim>\<open>`${n}`\<close>), for integers up to \<open>MAX_SAFE_INTEGER\<close> in magnitude.\<close>

definition digit :: "nat \<Rightarrow> char" where
  "digit d = ''0123456789'' ! d"

fun digits10 :: "nat \<Rightarrow> string" where
  "digits10 n =
     (if n < 10 then [digit n] else digits10 (n div 10) @ [digit (n mod 10)])"

declare digits10.simps [simp del]

definition Number_toString :: "int \<Rightarrow> string" where
  "Number_toString i =
     (if i < 0 then CHR ''-'' # digits10 (nat (- i)) else digits10 (nat i))"

text \<open>\<^verbatim>\<open>String.prototype.slice(start, end)\<close>: a negative index counts from the
  end of the string, both indices are clamped to \<open>[0, length]\<close>, and the result is
  empty when the clamped end is not after the clamped start.\<close>

definition slice :: "string \<Rightarrow> int \<Rightarrow> int \<Rightarrow> string" where
  "slice str start fin =
     (let len = int (length str);
          k_from = (if start < 0 then max (len + start) 0 else min start len);
          k_to = (if fin < 0 then max (len + fin) 0 else min fin len)
      in take (nat (k_to - k_from)) (drop (nat k_from) str))"

section \<open>The pagination step of the tool handler (lines 214--223)\<close>

text \<open>The notice appended on truncation, naming the next start index:
  \<^verbatim>\<open>\n\n<e>Content truncated. Call the fetch tool with a start_index of ${n} to get more content.</e>\<close>\<close>

definition truncation_notice :: "int \<Rightarrow> string" where
  "truncation_notice n =
     [CHR 0x0A, CHR 0x0A] @
     ''<e>Content truncated. Call the fetch tool with a start_index of '' @
     Number_toString n @ '' to get more content.</e>''"

text \<open>
  \<^verbatim>\<open>
  let finalContent = content
  if (finalContent.length > parsed.data.maxLength) {
    finalContent = finalContent.slice(parsed.data.startIndex,
                                      parsed.data.startIndex + parsed.data.maxLength)
    finalContent += `\n\n<e>Content truncated. ... ${startIndex + maxLength} ...</e>`
  }
  \<close>
  The sum below is the exact one: it is the sum the code computes, and prints, when
  \<open>s + m \<le> MAX_SAFE_INTEGER\<close>.
\<close>

definition finalContent :: "string \<Rightarrow> int \<Rightarrow> int \<Rightarrow> string" where
  "finalContent c s m =
     (if int (length c) > m
      then slice c s (s + m) @ truncation_notice (s + m)
      else c)"

text \<open>
  The handler keeps the page in the one variable \<^verbatim>\<open>finalContent\<close>. The record below
  names its three parts as the step computes them: the text before any notice, whether
  the guard of the \<^verbatim>\<open>if\<close> fired, and the index written into the notice.
  \<open>render\<close> puts them back together; \<open>finalContent_render\<close> below shows that this is
  the handler's string.
\<close>

record PaginatedOutput =
  page_slice :: string
  truncated :: bool
  nextStartIndex :: "int option"

definition paginate :: "string \<Rightarrow> int \<Rightarrow> int \<Rightarrow> PaginatedOutput" where
  "paginate c s m =
     (if int (length c) > m
      then \<lparr>page_slice = slice c s (s + m), truncated = True, nextStartIndex = Some (s + m)\<rparr>
      else \<lparr>page_slice = c, truncated = False, nextStartIndex = None\<rparr>)"

definition render :: "PaginatedOutput \<Rightarrow> string" where
  "render p =
     page_slice p @ (case nextStartIndex p of None \<Rightarrow> [] | Some n \<Rightarrow> truncation_notice n)"

section \<open>The libraries and the network, as parameters\<close>

text \<open>\<^verbatim>\<open>x || ""\<close> on a value that is a string, \<^verbatim>\<open>null\<close> or
  \<^verbatim>\<open>undefined\<close>.\<close>

definition or_empty :: "string option \<Rightarrow> string" where
  "or_empty x = (case x of None \<Rightarrow> [] | Some str \<Rightarrow> if str = [] then [] else str)"

text \<open>\<^verbatim>\<open>toLowerCase\<close>, on the letters that matter for finding \<^verbatim>\<open><html\<close>, and
  \<^verbatim>\<open>String.prototype.includes\<close>.\<close>

definition lower_char :: "char \<Rightarrow> char" where
  "lower_char ch =
     (case map_of (zip ''ABCDEFGHIJKLMNOPQRSTUVWXYZ'' ''abcdefghijklmnopqrstuvwxyz'') ch of
        None \<Rightarrow> ch | Some l \<Rightarrow> l)"

definition toLowerCase :: "string \<Rightarrow> string" where
  "toLowerCase str = map lower_char str"

fun str_includes :: "string \<Rightarrow> string \<Rightarrow> bool" where
  "str_includes [] sub = (sub = [])"
| "str_includes (x # xs) sub = (take (length sub) (x # xs) = sub \<or> str_includes xs sub)"

text \<open>\<^verbatim>\<open>Array.prototype.join\<close>.\<close>

fun join :: "string \<Rightarrow> string list \<Rightarrow> string" where
  "join sep [] = []"
| "join sep [x] = x"
| "join sep (x # y # ys) = x @ sep @ join sep (y # ys)"

text \<open>What \<^verbatim>\<open>node-fetch\<close> hands back: the \<^verbatim>\<open>ok\<close> flag, the status, the URL
  of the response, the \<^verbatim>\<open>content-type\<close> header (\<open>None\<close> when \<^verbatim>\<open>headers.get\<close>
  gives \<^verbatim>\<open>null\<close>), and what a first read of the body gives, as text
  (\<open>body_text\<close>) or as bytes (\<open>body_arrayBuffer\<close>).\<close>

record Response =
  ok :: bool
  status :: int
  response_url :: string
  content_type :: "string option"
  body_text :: "error + string"
  body_arrayBuffer :: "error + string"

text \<open>
  The body of a response can be read once. \<^verbatim>\<open>response.text()\<close> and
  \<^verbatim>\<open>response.arrayBuffer()\<close> both mark the body as used, and on a body already used
  they reject with \<^verbatim>\<open>TypeError(`body used already for: ${url}`)\<close>. The flag is passed
  in and returned.
\<close>

definition body_used_already :: "Response \<Rightarrow> error" where
  "body_used_already response = Error (''body used already for: '' @ response_url response)"

definition response_text :: "Response \<Rightarrow> bool \<Rightarrow> (error + string) \<times> bool" where
  "response_text response bodyUsed =
     (if bodyUsed then Inl (body_used_already response) else body_text response, True)"

definition response_arrayBuffer :: "Response \<Rightarrow> bool \<Rightarrow> (error + string) \<times> bool" where
  "response_arrayBuffer response bodyUsed =
     (if bodyUsed then Inl (body_used_already response) else body_arrayBuffer response, True)"

text \<open>An \<^verbatim>\<open>img\<close> element of the article: its \<^verbatim>\<open>src\<close> property (the resolved
  source URI) and its \<^verbatim>\<open>alt\<close> (\<open>None\<close> when there is none).\<close>

record ImgElement =
  img_src :: string
  img_alt :: "string option"

text \<open>The result of \<^verbatim>\<open>pdf-parse\<close>, of which the code reads \<^verbatim>\<open>?.text\<close>.\<close>

record PdfData =
  pdf_text :: "string option"

text \<open>
  The code of the libraries is not part of the repository; their functions are fields of
  a record that every operation takes:
  \<^item> \<open>fetch url userAgent\<close>: the request, which may reject;
  \<^item> \<open>Readability_parse html url\<close>: \<^verbatim>\<open>article.content\<close> of
    \<^verbatim>\<open>new Readability(new JSDOM(html, { url }).window.document).parse()\<close>, \<open>None\<close> when
    the article or its content is \<^verbatim>\<open>null\<close>;
  \<^item> \<open>querySelectorAll_img html\<close>: the \<^verbatim>\<open>img\<close> elements of
    \<^verbatim>\<open>new JSDOM(html)\<close>, in document order;
  \<^item> \<open>turndown html\<close>: the markdown of \<^verbatim>\<open>TurndownService\<close>;
  \<^item> \<open>pdfparse bytes\<close>: the parse, which may reject, or resolve to nothing;
  \<^item> \<open>zod_url\<close> and \<open>zod_error\<close>: the check of \<^verbatim>\<open>z.string().url()\<close> and the
    rendering of a validation error.
\<close>

record Arguments =
  arg_url :: "string option"
  arg_maxLength :: "int option"
  arg_startIndex :: "int option"
  arg_raw :: "bool option"

record World =
  fetch :: "string \<Rightarrow> string \<Rightarrow> error + Response"
  Readability_parse :: "string \<Rightarrow> string \<Rightarrow> string option"
  querySelectorAll_img :: "string \<Rightarrow> ImgElement list"
  turndown :: "string \<Rightarrow> string"
  pdfparse :: "string \<Rightarrow> error + PdfData option"
  zod_url :: "string \<Rightarrow> bool"
  zod_error :: "Arguments option \<Rightarrow> string"

section \<open>\<^verbatim>\<open>extractContentFromHtml\<close> (lines 53--84)\<close>

text \<open>The function returns either the failure string or the extracted content:
  \<open>Inl\<close> is the string (a value, nothing is thrown), \<open>Inr\<close> the content.\<close>

definition extractContentFromHtml :: "World \<Rightarrow> string \<Rightarrow> string \<Rightarrow> string + ExtractedContent" where
  "extractContentFromHtml w html u =
     (case Readability_parse w html u of
        None \<Rightarrow> Inl ''<e>Page failed to be simplified from HTML</e>''
      | Some article_content \<Rightarrow>
          if article_content = [] then Inl ''<e>Page failed to be simplified from HTML</e>''
          else
            let imgElements = querySelectorAll_img w article_content;
                imgs = map (\<lambda>img. \<lparr>src = img_src img, alt = or_empty (img_alt img)\<rparr>) imgElements
            in Inr \<lparr>markdown = turndown w article_content, images = imgs\<rparr>)"

section \<open>\<^verbatim>\<open>fetchUrl\<close> (lines 101--153)\<close>

definition raw_prefix :: "string \<Rightarrow> string" where
  "raw_prefix contentType =
     ''Content type '' @ contentType @
     '' cannot be simplified to markdown, but here is the raw content:'' @ [CHR 0x0A]"

text \<open>\<^verbatim>\<open>const contentType = response.headers.get("content-type") || ""\<close> comes before
  \<^verbatim>\<open>const text = await response.text()\<close> in the source; the header read has no effect
  and cannot fail, so the order of the two does not show.\<close>

definition fetchUrl :: "World \<Rightarrow> string \<Rightarrow> string \<Rightarrow> bool \<Rightarrow> error + FetchResult" where
  "fetchUrl w u userAgent forceRaw =
     (case fetch w u userAgent of
        Inl e \<Rightarrow> Inl e
      | Inr response \<Rightarrow>
          if \<not> ok response
          then Inl (Error (''Failed to fetch '' @ u @ '' - status code '' @
                           Number_toString (status response)))
          else
            (case response_text response False of
               (Inl e, bodyUsed) \<Rightarrow> Inl e
             | (Inr txt, bodyUsed) \<Rightarrow>
                 let contentType = or_empty (content_type response);
                     isHtml = (str_includes (toLowerCase txt) ''<html'' \<or>
                               str_includes contentType ''text/html'');
                     isPdf = str_includes contentType ''application/pdf''
                 in
                   if isHtml \<and> \<not> forceRaw then
                     (case extractContentFromHtml w txt u of
                        Inl result \<Rightarrow> Inr \<lparr>content = result, prefix = [], imageUrls = None\<rparr>
                      | Inr result \<Rightarrow>
                          Inr \<lparr>content = markdown result, prefix = [],
                               imageUrls = Some (take 10 (map src (images result)))\<rparr>)
                   else if isPdf \<and> \<not> forceRaw then
                     (case response_arrayBuffer response bodyUsed of
                        (Inl e, bodyUsed') \<Rightarrow> Inl e
                      | (Inr bytes, bodyUsed') \<Rightarrow>
                          (case pdfparse w bytes of
                             Inl e \<Rightarrow> Inl e
                           | Inr parsed \<Rightarrow>
                               Inr \<lparr>content = or_empty (Option.bind parsed pdf_text),
                                    prefix = [], imageUrls = Some []\<rparr>))
                   else Inr \<lparr>content = txt, prefix = raw_prefix contentType,
                             imageUrls = None\<rparr>))"

section \<open>The handler of \<^verbatim>\<open>tools/call\<close> (lines 187--252)\<close>

definition DEFAULT_USER_AGENT_AUTONOMOUS :: string where
  "DEFAULT_USER_AGENT_AUTONOMOUS =
     ''Mozilla/5.0 (Macintosh; Intel Mac OS X 10_15_7) AppleWebKit/537.36 (KHTML, like Gecko) Chrome/136.0.0.0 Safari/537.36''"

text \<open>\<^verbatim>\<open>FetchArgsSchema.safeParse(args)\<close>: the defaults, then the constraints;
  \<open>Inl\<close> is the failure with its rendering. The numbers are the integer ones: a
  fraction, which \<^verbatim>\<open>z.number()\<close> accepts as well, has no counterpart here.\<close>

definition FetchArgsSchema_safeParse :: "World \<Rightarrow> Arguments option \<Rightarrow> string + FetchArgs" where
  "FetchArgsSchema_safeParse w args =
     (case args of
        None \<Rightarrow> Inl (zod_error w args)
      | Some a \<Rightarrow>
          (case arg_url a of
             None \<Rightarrow> Inl (zod_error w args)
           | Some u \<Rightarrow>
               let d = \<lparr>url = u,
                        maxLength = (case arg_maxLength a of None \<Rightarrow> 20000 | Some m \<Rightarrow> m),
                        startIndex = (case arg_startIndex a of None \<Rightarrow> 0 | Some s \<Rightarrow> s),
                        raw = (case arg_raw a of None \<Rightarrow> False | Some r \<Rightarrow> r)\<rparr>
               in if zod_url w u \<and> FetchArgsSchema_numbers d then Inr d
                  else Inl (zod_error w args)))"

definition imagesSection :: "string list option \<Rightarrow> string" where
  "imagesSection urls =
     (case urls of
        None \<Rightarrow> []
      | Some us \<Rightarrow>
          if length us > 0
          then [CHR 0x0A, CHR 0x0A] @ ''Images found in page:'' @ [CHR 0x0A] @
               join [CHR 0x0A] (map (\<lambda>u. ''- '' @ u) us)
          else [])"

text \<open>The body of the \<^verbatim>\<open>try\<close> block: the text of the answer, or what was thrown.\<close>

definition handler_try :: "World \<Rightarrow> string \<Rightarrow> Arguments option \<Rightarrow> error + string" where
  "handler_try w name args =
     (if name \<noteq> ''fetch'' then Inl (Error (''Unknown tool: '' @ name))
      else
        (case FetchArgsSchema_safeParse w args of
           Inl err \<Rightarrow> Inl (Error (''Invalid arguments: '' @ err))
         | Inr d \<Rightarrow>
             (case fetchUrl w (url d) DEFAULT_USER_AGENT_AUTONOMOUS (raw d) of
                Inl e \<Rightarrow> Inl e
              | Inr r \<Rightarrow>
                  Inr (prefix r @ ''Contents of '' @ url d @ '':'' @ [CHR 0x0A] @
                       finalContent (content r) (startIndex d) (maxLength d) @
                       imagesSection (imageUrls r)))))"

text \<open>The answer of the handler: the \<^verbatim>\<open>catch\<close> turns whatever was thrown into an
  answer with \<^verbatim>\<open>isError: true\<close>.\<close>

record ToolResult =
  result_text :: string
  isError :: bool

definition handler :: "World \<Rightarrow> string \<Rightarrow> Arguments option \<Rightarrow> ToolResult" where
  "handler w name args =
     (case handler_try w name args of
        Inr t \<Rightarrow> \<lparr>result_text = t, isError = False\<rparr>
      | Inl (Error msg) \<Rightarrow> \<lparr>result_text = ''Error: '' @ msg, isError = True\<rparr>)"

section \<open>Windows over a text\<close>

text \<open>The start indices \<open>0, m, 2m, \<dots>\<close> below the length \<open>L\<close> of a text: the
  windows a caller asks for when it pages through the text with a fixed \<open>maxLength\<close>.
  \<open>page_starts_set\<close> below shows that these are exactly the multiples of \<open>m\<close>
  below \<open>L\<close>.\<close>

definition page_starts :: "nat \<Rightarrow> int \<Rightarrow> int list" where
  "page_starts L m = map (\<lambda>k. int k * m) [0..<nat ((int L + m - 1) div m)]"

section \<open>Concrete inputs\<close>

text \<open>A response with status 200, a world whose libraries return fixed values, tool
  arguments for \<^verbatim>\<open>https://example.com/\<close>, an image element, a gallery of 12 images,
  a page with one image (its article, the image element and the markdown with the image
  written as \<^verbatim>\<open>![alt](src)\<close>), a PDF response and a text of 1001 characters: the inputs
  at which the theorems below are evaluated.\<close>

definition demo_response :: "string option \<Rightarrow> string \<Rightarrow> Response" where
  "demo_response ct body =
     \<lparr>ok = True, status = 200, response_url = ''https://example.com/'', content_type = ct,
      body_text = Inr body, body_arrayBuffer = Inr body\<rparr>"

definition demo_world ::
  "(error + Response) \<Rightarrow> string \<Rightarrow> ImgElement list \<Rightarrow> (error + PdfData option) \<Rightarrow> World" where
  "demo_world resp md imgs pdf =
     \<lparr>fetch = (\<lambda>u ua. resp),
      Readability_parse = (\<lambda>html u. Some ''<div>article</div>''),
      querySelectorAll_img = (\<lambda>html. imgs),
      turndown = (\<lambda>html. md),
      pdfparse = (\<lambda>bytes. pdf),
      zod_url = (\<lambda>u. True),
      zod_error = (\<lambda>a. ''Required'')\<rparr>"

definition demo_args :: "int \<Rightarrow> int \<Rightarrow> Arguments option" where
  "demo_args s m =
     Some \<lparr>arg_url = Some ''https://example.com/'', arg_maxLength = Some m,
           arg_startIndex = Some s, arg_raw = None\<rparr>"

definition demo_img :: "string option \<Rightarrow> ImgElement" where
  "demo_img a = \<lparr>img_src = ''https://example.com/a.png'', img_alt = a\<rparr>"

definition demo_gallery :: "ImgElement list" where
  "demo_gallery =
     map (\<lambda>k. \<lparr>img_src = ''https://example.com/'' @ digits10 k, img_alt = None\<rparr>) [0..<12]"

definition demo_page :: "string option \<Rightarrow> string" where
  "demo_page a =
     ''<html><body><article><h1>T</h1><p>Hello <img src=a.png'' @
     (case a of None \<Rightarrow> [] | Some t \<Rightarrow> '' alt='' @ t) @ ''></p></article></body></html>''"

definition demo_article :: "string option \<Rightarrow> string" where
  "demo_article a =
     ''<div><h1>T</h1><p>Hello <img src=https://example.com/a.png'' @
     (case a of None \<Rightarrow> [] | Some t \<Rightarrow> '' alt='' @ t) @ ''></p></div>''"

definition demo_article_markdown :: "string option \<Rightarrow> string" where
  "demo_article_markdown a =
     ''# T'' @ [CHR 0x0A, CHR 0x0A] @ ''Hello !['' @ (case a of None \<Rightarrow> [] | Some t \<Rightarrow> t) @
     ''](https://example.com/a.png)''"

definition demo_article_world :: "string option \<Rightarrow> World" where
  "demo_article_world a =
     \<lparr>fetch = (\<lambda>u ua. Inr (demo_response (Some ''text/html'') (demo_page a))),
      Readability_parse = (\<lambda>html u. Some (demo_article a)),
      querySelectorAll_img = (\<lambda>html. [demo_img a]),
      turndown = (\<lambda>html. demo_article_markdown a),
      pdfparse = (\<lambda>bytes. Inr None),
      zod_url = (\<lambda>u. True),
      zod_error = (\<lambda>args. ''Required'')\<rparr>"

definition demo_pdf :: Response where
  "demo_pdf = demo_response (Some ''application/pdf'') ''%PDF-''"

definition long_text :: string where
  "long_text = replicate 1001 (CHR ''a'')"

section \<open>Basic facts\<close>

lemma finalContent_render: "finalContent c s m = render (paginate c s m)"
  by (simp add: finalContent_def render_def paginate_def)

lemma slice_nonneg:
  "0 \<le> s \<Longrightarrow> 0 \<le> e \<Longrightarrow> slice c s e = take (nat (e - s)) (drop (nat s) c)"
  by (auto simp: slice_def Let_def min_def)

lemma paginate_over:
  "0 \<le> s \<Longrightarrow> 0 < m \<Longrightarrow> m < int (length c) \<Longrightarrow>
   paginate c s m = \<lparr>page_slice = take (nat m) (drop (nat s) c), truncated = True,
                     nextStartIndex = Some (s + m)\<rparr>"
  by (simp add: paginate_def slice_nonneg)

lemma digits10_nonempty: "digits10 n \<noteq> []"
  by (subst digits10.simps) simp

lemma truncation_notice_length: "0 < length (truncation_notice n)"
  by (simp add: truncation_notice_def)

lemma concat_pages:
  "concat (map (\<lambda>k. take m (drop (k * m) xs)) [0..<n]) = take (n * m) xs"
proof (induction n)
  case 0 show ?case by simp
next
  case (Suc n)
  have "take (n * m) xs @ take m (drop (n * m) xs) = take (n * m + m) xs"
    by (simp add: take_add)
  with Suc show ?case by (simp add: add.commute)
qed

lemma page_count_covers:
  assumes "0 < (M::nat)"
  shows "L \<le> ((L + M - 1) div M) * M"
proof -
  have "(L + M - 1) div M * M = (L + M - 1) - (L + M - 1) mod M"
    by (simp add: minus_mod_eq_div_mult)
  moreover have "(L + M - 1) mod M \<le> M - 1"
    using assms by (simp add: less_Suc_eq_le [symmetric])
  ultimately show ?thesis using assms by linarith
qed

lemma page_count_nat:
  assumes "0 < m"
  shows "nat ((int L + m - 1) div m) = (L + nat m - 1) div nat m"
proof -
  obtain M where M: "m = int M" "0 < M" using assms by (metis zero_less_imp_eq_int)
  have "int L + int M - 1 = int (L + M - 1)" using M by simp
  then have "(int L + m - 1) div m = int ((L + M - 1) div M)"
    unfolding M by (simp only: zdiv_int)
  then show ?thesis using M by simp
qed

lemma page_starts_set:
  assumes "0 < m"
  shows "set (page_starts L m) = {s. \<exists>k. s = int k * m \<and> s < int L}"
proof -
  define M where "M = nat m"
  define n where "n = (L + M - 1) div M"
  have M: "0 < M" "m = int M" using assms by (simp_all add: M_def)
  have iff: "k < n \<longleftrightarrow> k * M < L" for k
  proof -
    have "k < n \<longleftrightarrow> Suc k * M \<le> L + M - 1"
      using M(1) by (simp add: n_def Suc_le_eq [symmetric] less_eq_div_iff_mult_less_eq)
    also have "\<dots> \<longleftrightarrow> k * M < L" using M(1) by auto
    finally show ?thesis .
  qed
  have less: "int k * m < int L \<longleftrightarrow> k * M < L" for k
    unfolding M(2) by (metis of_nat_less_iff of_nat_mult)
  have "page_starts L m = map (\<lambda>k. int k * m) [0..<n]"
    using assms by (simp add: page_starts_def page_count_nat n_def M_def)
  then have "set (page_starts L m) = (\<lambda>k. int k * m) ` {k. k < n}"
    by auto
  also have "\<dots> = {s. \<exists>k. s = int k * m \<and> s < int L}"
    by (auto simp: iff less)
  finally show ?thesis .
qed

lemma str_includes_prefix: "str_includes (ys @ zs) ys"
proof (cases "ys @ zs")
  case Nil
  then show ?thesis by simp
next
  case (Cons a l)
  have "take (length ys) (ys @ zs) = ys" by simp
  then have "take (length ys) (a # l) = ys" by (simp only: Cons)
  then show ?thesis by (simp only: Cons str_includes.simps) simp
qed

lemma str_includes_append: "str_includes (xs @ ys @ zs) ys"
  by (induction xs) (simp_all add: str_includes_prefix)

lemma safeParse_numbers:
  "FetchArgsSchema_safeParse w args = Inr d \<Longrightarrow> 0 < maxLength d \<and> maxLength d \<le> 1000000 \<and> 0 \<le> startIndex d"
  by (auto simp: FetchArgsSchema_safeParse_def FetchArgsSchema_numbers_def Let_def
           split: option.splits if_splits)

lemma or_empty_simps: "or_empty None = []" "or_empty (Some t) = t"
  by (simp_all add: or_empty_def)


section \<open>Pagination\<close>

text \<open>
  C1 (as amended). For an integer window \<open>(s, m)\<close> accepted by the schema with
  \<open>s + m \<le> MAX_SAFE_INTEGER\<close> and a text of length \<open>L\<close> with \<open>L - s \<le> m\<close>,
  the step returns the full remaining text from position \<open>s\<close> onward when \<open>s = 0\<close>
  or \<open>L > m\<close>. The continuation notice is absent
  exactly when the whole text fits (\<open>L \<le> m\<close>); when \<open>L > m\<close> the guard of the
  handler fires although nothing remains beyond the window, and the notice naming
  \<open>s + m\<close> follows the remaining text.
\<close>

theorem pagination_full_remainder:
  assumes "0 \<le> s" "0 < m" "s + m \<le> MAX_SAFE_INTEGER"
    and "int (length c) - s \<le> m" "s = 0 \<or> m < int (length c)"
  shows "page_slice (paginate c s m) = drop (nat s) c \<and>
         truncated (paginate c s m) = (m < int (length c)) \<and>
         finalContent c s m =
           drop (nat s) c @ (if m < int (length c) then truncation_notice (s + m) else [])"
proof (cases "m < int (length c)")
  case True
  have "take (nat m) (drop (nat s) c) = drop (nat s) c"
    using assms by (intro take_all) simp
  with True assms show ?thesis
    by (simp add: paginate_over finalContent_render render_def)
next
  case False
  with assms have "s = 0" by simp
  with False show ?thesis
    by (simp add: paginate_def finalContent_def)
qed

theorem pagination_full_remainder_witness:
  "(0::int) \<le> 3 \<and> (0::int) < 4 \<and> 3 + 4 \<le> MAX_SAFE_INTEGER \<and>
   int (length ''hello'') - 3 \<le> 4 \<and>
   page_slice (paginate ''hello'' 3 4) = ''lo'' \<and>
   truncated (paginate ''hello'' 3 4) \<and>
   finalContent ''hello'' 3 4 = ''lo'' @ truncation_notice 7 \<and>
   int (length ''hello'') - 0 \<le> 10 \<and>
   \<not> truncated (paginate ''hello'' 0 10) \<and>
   finalContent ''hello'' 0 10 = ''hello''"
  using pagination_full_remainder [of 3 4 "''hello''"]
        pagination_full_remainder [of 0 10 "''hello''"]
  by (simp add: MAX_SAFE_INTEGER_def)

text \<open>
  C1 as stated fails twice. With \<open>L \<le> m\<close> and \<open>s > 0\<close> the handler does not apply
  \<open>startIndex\<close> at all: the text \<open>abc\<close> with the window \<open>(1, 10)\<close> comes back
  whole, not as \<open>bc\<close>. With \<open>L > m\<close> and \<open>L - s \<le> m\<close> the notice is appended:
  the text \<open>abcd\<close> with the window \<open>(2, 3)\<close> gives \<open>cd\<close> followed by the notice.
\<close>

theorem pagination_full_remainder_counterexample:
  "int (length ''abc'') - 1 \<le> 10 \<and>
   finalContent ''abc'' 1 10 = ''abc'' \<and>
   finalContent ''abc'' 1 10 \<noteq> drop (nat 1) ''abc'' \<and>
   int (length ''abcd'') - 2 \<le> 3 \<and>
   truncated (paginate ''abcd'' 2 3) \<and>
   finalContent ''abcd'' 2 3 = ''cd'' @ truncation_notice 5"
  by (simp add: finalContent_def paginate_def slice_def)

text \<open>
  C3 (as amended). An integer start index \<open>s\<close> at or beyond the length \<open>L\<close> of the
  text, with \<open>s + m \<le> MAX_SAFE_INTEGER\<close>, never faults: the step is a total function
  into strings. The slice is empty when
  \<open>L > m\<close>, and then the notice naming \<open>s + m\<close> is the whole returned text
  (\<open>truncated\<close> holds); for the empty text the slice is empty and nothing is appended.
\<close>

theorem pagination_start_beyond_end:
  assumes "0 < m" "int (length c) \<le> s" "s + m \<le> MAX_SAFE_INTEGER"
    and "c = [] \<or> m < int (length c)"
  shows "page_slice (paginate c s m) = [] \<and>
         truncated (paginate c s m) = (m < int (length c)) \<and>
         finalContent c s m = (if m < int (length c) then truncation_notice (s + m) else [])"
proof (cases "m < int (length c)")
  case True
  with assms show ?thesis
    by (simp add: paginate_over finalContent_render render_def)
next
  case False
  with assms have "c = []" by simp
  with assms show ?thesis
    by (simp add: paginate_def finalContent_def)
qed

theorem pagination_start_beyond_end_witness:
  "(0::int) < 2 \<and> int (length ''abc'') \<le> 3 \<and> 3 + 2 \<le> MAX_SAFE_INTEGER \<and>
   page_slice (paginate ''abc'' 3 2) = [] \<and>
   truncated (paginate ''abc'' 3 2) \<and>
   finalContent ''abc'' 3 2 = truncation_notice 5 \<and>
   int (length ([]::string)) \<le> 4 \<and>
   \<not> truncated (paginate [] 4 2) \<and>
   finalContent [] 4 2 = []"
  using pagination_start_beyond_end [of 2 "''abc''" 3]
        pagination_start_beyond_end [of 2 "[]" 4]
  by (simp add: MAX_SAFE_INTEGER_def)

text \<open>
  C3 as stated fails: for the text \<open>abc\<close> and the window \<open>(3, 2)\<close> the slice is
  empty but the notice is appended (\<open>truncated\<close> holds), and for the window
  \<open>(3, 10)\<close> the whole text comes back, not an empty slice.
\<close>

theorem pagination_start_beyond_end_counterexample:
  "int (length ''abc'') \<le> 3 \<and>
   truncated (paginate ''abc'' 3 2) \<and>
   finalContent ''abc'' 3 2 = truncation_notice 5 \<and>
   page_slice (paginate ''abc'' 3 10) = ''abc'' \<and>
   finalContent ''abc'' 3 10 \<noteq> []"
  by (simp add: finalContent_def paginate_def slice_def)

text \<open>
  C4. For a text of length \<open>L\<close> and \<open>0 < m < L\<close>, the window \<open>(0, m)\<close> is
  truncated, its slice has exactly \<open>m\<close> characters, and the next start index is
  \<open>0 + m = m\<close>, whatever remains beyond the window; the returned string is the slice
  followed by the notice naming \<open>m\<close>.
\<close>

theorem pagination_first_window:
  assumes "0 < m" "m < int (length c)"
  shows "truncated (paginate c 0 m) \<and>
         length (page_slice (paginate c 0 m)) = nat m \<and>
         page_slice (paginate c 0 m) = take (nat m) c \<and>
         nextStartIndex (paginate c 0 m) = Some m \<and>
         finalContent c 0 m = take (nat m) c @ truncation_notice m"
  using assms by (simp add: paginate_over finalContent_render render_def)

theorem pagination_first_window_witness:
  "(0::int) < 2 \<and> 2 < int (length ''abc'') \<and>
   truncated (paginate ''abc'' 0 2) \<and>
   length (page_slice (paginate ''abc'' 0 2)) = 2 \<and>
   page_slice (paginate ''abc'' 0 2) = ''ab'' \<and>
   nextStartIndex (paginate ''abc'' 0 2) = Some 2 \<and>
   finalContent ''abc'' 0 2 = ''ab'' @ truncation_notice 2"
  using pagination_first_window [of 2 "''abc''"]
  by simp

text \<open>
  C5. For a text of length \<open>L\<close> and a positive \<open>maxLength\<close> \<open>m\<close>, the slices of
  the windows that start at \<open>0, m, 2m, \<dots>\<close> below \<open>L\<close>, concatenated in this
  order, are the text.
\<close>

theorem pagination_slices_concat:
  assumes "0 < m"
  shows "concat (map (\<lambda>s. page_slice (paginate c s m)) (page_starts (length c) m)) = c"
proof (cases "m < int (length c)")
  case True
  define M where "M = nat m"
  define n where "n = (length c + M - 1) div M"
  have M: "0 < M" "m = int M" using assms by (simp_all add: M_def)
  have starts: "page_starts (length c) m = map (\<lambda>k. int k * m) [0..<n]"
    using assms by (simp add: page_starts_def page_count_nat n_def M_def)
  have "page_slice (paginate c (int k * m) m) = take M (drop (k * M) c)" for k
    using True assms by (simp add: paginate_over M nat_mult_distrib)
  then have "concat (map (\<lambda>s. page_slice (paginate c s m)) (page_starts (length c) m))
             = concat (map (\<lambda>k. take M (drop (k * M) c)) [0..<n])"
    by (simp add: starts comp_def)
  also have "\<dots> = take (n * M) c" by (rule concat_pages)
  also have "\<dots> = c" using page_count_covers [OF M(1), of "length c"] by (simp add: n_def)
  finally show ?thesis .
next
  case False
  show ?thesis
  proof (cases "c = []")
    case True
    with assms show ?thesis by (simp add: paginate_def)
  next
    case nonempty: False
    define M where "M = nat m"
    have M: "0 < M" "length c \<le> M" "0 < length c" using assms False nonempty by (simp_all add: M_def)
    have "(length c + M - 1) div M = 1"
    proof -
      have "M \<le> length c + M - 1" "length c + M - 1 < 2 * M" using M by linarith+
      then show ?thesis using M(1)
        by (metis (no_types) div_nat_eqI mult.commute mult_2_right numeral_2_eq_2 mult_Suc_right nat_mult_1_right One_nat_def)
    qed
    then have "page_starts (length c) m = [0]"
      using assms by (simp add: page_starts_def page_count_nat M_def)
    with False show ?thesis by (simp add: paginate_def)
  qed
qed

theorem pagination_slices_concat_witness:
  "(0::int) < 3 \<and>
   page_starts (length ''abcdefg'') 3 = [0, 3, 6] \<and>
   map (\<lambda>s. page_slice (paginate ''abcdefg'' s 3)) [0, 3, 6] = [''abc'', ''def'', ''g''] \<and>
   concat (map (\<lambda>s. page_slice (paginate ''abcdefg'' s 3)) (page_starts (length ''abcdefg'') 3))
     = ''abcdefg''"
  using pagination_slices_concat [of 3 "''abcdefg''"]
  by (simp add: page_starts_def paginate_def slice_def upt_rec)

text \<open>
  C10 (as amended). Whenever the content is longer than \<open>maxLength\<close> and the window
  is an integer one with \<open>startIndex + maxLength \<le> MAX_SAFE_INTEGER\<close>, the text of
  the answer is not the bare slice: the notice naming \<open>startIndex + maxLength\<close> follows
  the slice inside the text. The answer is strictly longer than \<open>maxLength\<close>
  whenever the window lies inside the content
  (\<open>startIndex + maxLength \<le> length\<close>).
\<close>

theorem truncation_notice_appended:
  assumes "FetchArgsSchema_safeParse w args = Inr d"
    and "fetchUrl w (url d) DEFAULT_USER_AGENT_AUTONOMOUS (raw d) = Inr r"
    and "maxLength d < int (length (content r))"
    and "startIndex d + maxLength d \<le> MAX_SAFE_INTEGER"
  shows "finalContent (content r) (startIndex d) (maxLength d) =
           slice (content r) (startIndex d) (startIndex d + maxLength d) @
           truncation_notice (startIndex d + maxLength d) \<and>
         finalContent (content r) (startIndex d) (maxLength d) \<noteq>
           slice (content r) (startIndex d) (startIndex d + maxLength d) \<and>
         handler w ''fetch'' args =
           \<lparr>result_text = prefix r @ ''Contents of '' @ url d @ '':'' @ [CHR 0x0A] @
               slice (content r) (startIndex d) (startIndex d + maxLength d) @
               truncation_notice (startIndex d + maxLength d) @ imagesSection (imageUrls r),
             isError = False\<rparr> \<and>
         (startIndex d + maxLength d \<le> int (length (content r)) \<longrightarrow>
            maxLength d < int (length (finalContent (content r) (startIndex d) (maxLength d))) \<and>
            maxLength d < int (length (result_text (handler w ''fetch'' args))))"
proof -
  have n: "0 < maxLength d" "0 \<le> startIndex d" using assms(1) by (simp_all add: safeParse_numbers)
  have fc: "finalContent (content r) (startIndex d) (maxLength d) =
           slice (content r) (startIndex d) (startIndex d + maxLength d) @
           truncation_notice (startIndex d + maxLength d)"
    using assms(3) by (simp add: finalContent_def)
  have h: "handler w ''fetch'' args =
           \<lparr>result_text = prefix r @ ''Contents of '' @ url d @ '':'' @ [CHR 0x0A] @
               finalContent (content r) (startIndex d) (maxLength d) @ imagesSection (imageUrls r),
             isError = False\<rparr>"
    using assms(1,2) by (simp add: handler_def handler_try_def)
  have len: "length (slice (content r) (startIndex d) (startIndex d + maxLength d)) = nat (maxLength d)"
    if "startIndex d + maxLength d \<le> int (length (content r))"
    using that n by (simp add: slice_nonneg)
  have pos: "0 < length (truncation_notice (startIndex d + maxLength d))"
    by (rule truncation_notice_length)
  have bare: "finalContent (content r) (startIndex d) (maxLength d) \<noteq>
           slice (content r) (startIndex d) (startIndex d + maxLength d)"
    using pos by (simp add: fc)
  show ?thesis
    using n len pos bare by (auto simp: h fc)
qed

theorem truncation_notice_appended_witness:
  "(2::int) + 3 \<le> MAX_SAFE_INTEGER \<and>
   handler (demo_world (Inr (demo_response (Some ''text/html'') ''<html>'')) ''abcdef'' [] (Inr None))
       ''fetch'' (demo_args 2 3)
     = \<lparr>result_text = ''Contents of https://example.com/:'' @ [CHR 0x0A] @ ''cde'' @ truncation_notice 5,
        isError = False\<rparr> \<and>
   3 < int (length (result_text
       (handler (demo_world (Inr (demo_response (Some ''text/html'') ''<html>'')) ''abcdef'' [] (Inr None))
       ''fetch'' (demo_args 2 3))))"
  using truncation_notice_appended [of "demo_world (Inr (demo_response (Some ''text/html'') ''<html>'')) ''abcdef'' [] (Inr None)"
        "demo_args 2 3"
        "\<lparr>url = ''https://example.com/'', maxLength = 3, startIndex = 2, raw = False\<rparr>"
        "\<lparr>content = ''abcdef'', prefix = [], imageUrls = Some []\<rparr>"]
  by (simp add: FetchArgsSchema_safeParse_def FetchArgsSchema_numbers_def
      demo_args_def fetchUrl_def response_text_def response_arrayBuffer_def demo_world_def demo_response_def extractContentFromHtml_def
      or_empty_def toLowerCase_def lower_char_def slice_def imagesSection_def
      MAX_SAFE_INTEGER_def)

text \<open>
  C10 as stated fails on a later window: a content of 1001 characters read with
  \<open>maxLength = 1000\<close> from the start index 1000 that the first notice names gives
  one character and the notice, an answer of far fewer than 1000 characters.
\<close>

theorem truncation_notice_appended_counterexample:
  "1000 < int (length long_text) \<and>
   handler (demo_world (Inr (demo_response (Some ''text/html'') ''<html>'')) long_text [] (Inr None))
       ''fetch'' (demo_args 1000 1000)
     = \<lparr>result_text = ''Contents of https://example.com/:'' @ [CHR 0x0A] @ ''a'' @ truncation_notice 2000,
        isError = False\<rparr> \<and>
   \<not> 1000 < int (length (result_text
       (handler (demo_world (Inr (demo_response (Some ''text/html'') ''<html>'')) long_text [] (Inr None))
       ''fetch'' (demo_args 1000 1000))))"
  by (simp add: handler_def handler_try_def FetchArgsSchema_safeParse_def FetchArgsSchema_numbers_def
      demo_args_def fetchUrl_def response_text_def response_arrayBuffer_def demo_world_def demo_response_def extractContentFromHtml_def
      or_empty_def toLowerCase_def lower_char_def long_text_def finalContent_def slice_def imagesSection_def
      truncation_notice_def Number_toString_def digits10.simps digit_def)

section \<open>Retrieval\<close>

text \<open>
  C9. When the retrieval completes with a status that is not a success
  (\<^verbatim>\<open>response.ok\<close> is false), \<open>fetchUrl\<close> fails with an error instead of
  returning content, and the message of the error contains the requested URL and the
  decimal status code.
\<close>

theorem fetch_non_success_status:
  assumes "fetch w u ua = Inr resp" "\<not> ok resp"
  shows "fetchUrl w u ua forceRaw =
           Inl (Error (''Failed to fetch '' @ u @ '' - status code '' @ Number_toString (status resp))) \<and>
         str_includes (''Failed to fetch '' @ u @ '' - status code '' @ Number_toString (status resp)) u \<and>
         str_includes (''Failed to fetch '' @ u @ '' - status code '' @ Number_toString (status resp))
           (Number_toString (status resp))"
proof -
  have "str_includes (''Failed to fetch '' @ u @ ('' - status code '' @ Number_toString (status resp))) u"
    by (rule str_includes_append)
  moreover have "str_includes ((''Failed to fetch '' @ u @ '' - status code '') @ Number_toString (status resp) @ [])
           (Number_toString (status resp))"
    by (rule str_includes_append)
  ultimately show ?thesis using assms by (simp add: fetchUrl_def response_text_def response_arrayBuffer_def)
qed

theorem fetch_non_success_status_witness:
  "\<not> ok ((demo_response None [])\<lparr>ok := False, status := 404\<rparr>) \<and>
   fetchUrl (demo_world (Inr ((demo_response None [])\<lparr>ok := False, status := 404\<rparr>)) [] [] (Inr None))
      ''https://example.com/'' ''ua'' False
   = Inl (Error ''Failed to fetch https://example.com/ - status code 404'')"
  using fetch_non_success_status [of "demo_world (Inr ((demo_response None [])\<lparr>ok := False, status := 404\<rparr>)) [] [] (Inr None)"
      "''https://example.com/''" "''ua''" "(demo_response None [])\<lparr>ok := False, status := 404\<rparr>" False]
  by (simp add: demo_world_def demo_response_def Number_toString_def digits10.simps digit_def)

section \<open>Media references\<close>




text \<open>
  C7 (as amended). For a successfully extracted HTML document, the extraction stage
  records for every image element, in document order, the resolved source URI and the alt
  text (the empty string when there is none). The media references of the final result
  of the operation are the source URIs alone, those of the first 10 images; the alt text
  is no part of a media reference.
\<close>

theorem media_refs_carried:
  assumes "fetch w u ua = Inr resp" "ok resp" "body_text resp = Inr txt"
    and "str_includes (toLowerCase txt) ''<html'' \<or>
         str_includes (or_empty (content_type resp)) ''text/html''"
    and "Readability_parse w txt u = Some a" "a \<noteq> []"
  shows "extractContentFromHtml w txt u =
           Inr \<lparr>markdown = turndown w a,
                images = map (\<lambda>e. \<lparr>src = img_src e,
                                       alt = (case img_alt e of None \<Rightarrow> [] | Some t \<Rightarrow> t)\<rparr>)
                             (querySelectorAll_img w a)\<rparr> \<and>
         fetchUrl w u ua False =
           Inr \<lparr>content = turndown w a, prefix = [],
                imageUrls = Some (take 10 (map img_src (querySelectorAll_img w a)))\<rparr>"
proof -
  have alt: "or_empty x = (case x of None \<Rightarrow> [] | Some t \<Rightarrow> t)" for x
    by (cases x) (simp_all add: or_empty_simps)
  have ex: "extractContentFromHtml w txt u =
           Inr \<lparr>markdown = turndown w a,
                images = map (\<lambda>e. \<lparr>src = img_src e,
                                       alt = (case img_alt e of None \<Rightarrow> [] | Some t \<Rightarrow> t)\<rparr>)
                             (querySelectorAll_img w a)\<rparr>"
    using assms(5,6) by (simp add: extractContentFromHtml_def Let_def alt)
  have "fetchUrl w u ua False =
          Inr \<lparr>content = turndown w a, prefix = [],
               imageUrls = Some (take 10 (map img_src (querySelectorAll_img w a)))\<rparr>"
    using assms(1-4) by (simp add: fetchUrl_def response_text_def response_arrayBuffer_def Let_def ex comp_def)
  with ex show ?thesis by simp
qed

theorem media_refs_carried_witness:
  "extractContentFromHtml (demo_article_world (Some ''A'')) (demo_page (Some ''A''))
        ''https://example.com/''
    = Inr \<lparr>markdown = demo_article_markdown (Some ''A''),
           images = [\<lparr>src = ''https://example.com/a.png'', alt = ''A''\<rparr>]\<rparr> \<and>
   fetchUrl (demo_article_world (Some ''A'')) ''https://example.com/'' ''ua'' False
    = Inr \<lparr>content = demo_article_markdown (Some ''A''), prefix = [],
           imageUrls = Some [''https://example.com/a.png'']\<rparr> \<and>
   extractContentFromHtml (demo_article_world None) (demo_page None) ''https://example.com/''
    = Inr \<lparr>markdown = demo_article_markdown None,
           images = [\<lparr>src = ''https://example.com/a.png'', alt = []\<rparr>]\<rparr>"
  using media_refs_carried [of "demo_article_world (Some ''A'')" "''https://example.com/''" "''ua''"
        "demo_response (Some ''text/html'') (demo_page (Some ''A''))" "demo_page (Some ''A'')"
        "demo_article (Some ''A'')"]
        media_refs_carried [of "demo_article_world None" "''https://example.com/''" "''ua''"
        "demo_response (Some ''text/html'') (demo_page None)" "demo_page None"
        "demo_article None"]
  by (simp add: demo_article_world_def demo_response_def demo_img_def demo_article_def
      demo_page_def or_empty_def)

text \<open>
  C7 as stated fails: for the article with the one image \<open>a.png\<close> of alt text
  \<open>A\<close>, the media references of the final result are the list of the one source
  URI, and the section of the answer that lists them has the URI alone. The same page
  with the alt text \<open>B\<close> has another markdown and the same media references.
\<close>

theorem media_refs_carried_counterexample:
  "fetchUrl (demo_article_world (Some ''A'')) ''https://example.com/'' ''ua'' False
    = Inr \<lparr>content = ''# T'' @ [CHR 0x0A, CHR 0x0A] @ ''Hello ![A](https://example.com/a.png)'',
           prefix = [], imageUrls = Some [''https://example.com/a.png'']\<rparr> \<and>
   fetchUrl (demo_article_world (Some ''B'')) ''https://example.com/'' ''ua'' False
    = Inr \<lparr>content = ''# T'' @ [CHR 0x0A, CHR 0x0A] @ ''Hello ![B](https://example.com/a.png)'',
           prefix = [], imageUrls = Some [''https://example.com/a.png'']\<rparr> \<and>
   imagesSection (Some [''https://example.com/a.png''])
    = [CHR 0x0A, CHR 0x0A] @ ''Images found in page:'' @ [CHR 0x0A] @
      ''- https://example.com/a.png''"
  by (simp add: imagesSection_def fetchUrl_def response_text_def demo_article_world_def
      demo_response_def demo_img_def demo_article_def demo_page_def demo_article_markdown_def
      extractContentFromHtml_def or_empty_def toLowerCase_def lower_char_def)

text \<open>
  C8. Whatever the document, a media reference list in the result of \<open>fetchUrl\<close>
  has at most 10 entries; a non-empty list is the sources of the first 10 image elements
  of the extracted region in document order, the rest being dropped without an error.
\<close>

theorem media_refs_capped:
  assumes "fetchUrl w u ua forceRaw = Inr r" "imageUrls r = Some us"
  shows "length us \<le> 10 \<and>
         (\<forall>resp txt a. fetch w u ua = Inr resp \<longrightarrow> body_text resp = Inr txt \<longrightarrow>
            Readability_parse w txt u = Some a \<longrightarrow> us \<noteq> [] \<longrightarrow>
            us = take 10 (map img_src (querySelectorAll_img w a)))"
proof -
  from assms show ?thesis
    by (auto simp: fetchUrl_def response_text_def response_arrayBuffer_def Let_def extractContentFromHtml_def comp_def
             split: sum.splits if_splits option.splits)
qed

theorem media_refs_capped_witness:
  "length demo_gallery = 12 \<and>
   fetchUrl (demo_world (Inr (demo_response (Some ''text/html'') ''<html>'')) ''Hello''
        demo_gallery (Inr None)) ''https://example.com/'' ''ua'' False
    = Inr \<lparr>content = ''Hello'', prefix = [],
           imageUrls = Some (map (\<lambda>k. ''https://example.com/'' @ digits10 k) [0..<10])\<rparr> \<and>
   length (map (\<lambda>k. ''https://example.com/'' @ digits10 k) [0..<10]) \<le> 10"
  using media_refs_capped [of "demo_world (Inr (demo_response (Some ''text/html'') ''<html>'')) ''Hello''
        demo_gallery (Inr None)" "''https://example.com/''" "''ua''" False
        "\<lparr>content = ''Hello'', prefix = [],
           imageUrls = Some (map (\<lambda>k. ''https://example.com/'' @ digits10 k) [0..<10])\<rparr>"
        "map (\<lambda>k. ''https://example.com/'' @ digits10 k) [0..<10]"]
  by (simp add: fetchUrl_def response_text_def response_arrayBuffer_def demo_world_def demo_response_def demo_gallery_def
      extractContentFromHtml_def or_empty_def toLowerCase_def lower_char_def comp_def take_map)

section \<open>Binary documents\<close>

text \<open>
  For an input classified as a binary document (a PDF content type, no HTML marker,
  \<open>raw\<close> not set), \<open>fetchUrl\<close> has read the body as text before it asks for the
  bytes. The second read is rejected, so the parse is never reached and \<open>fetchUrl\<close>
  fails with the error of the read, whatever the document and whatever the parse would
  give.
\<close>

lemma pdf_branch_rejects:
  assumes "fetch w u ua = Inr resp" "ok resp" "body_text resp = Inr txt"
    and "\<not> str_includes (toLowerCase txt) ''<html''"
        "\<not> str_includes (or_empty (content_type resp)) ''text/html''"
    and "str_includes (or_empty (content_type resp)) ''application/pdf''"
  shows "fetchUrl w u ua False =
           Inl (Error (''body used already for: '' @ response_url resp))"
  using assms
  by (simp add: fetchUrl_def response_text_def response_arrayBuffer_def body_used_already_def
      Let_def)

text \<open>
  C2, at a failing input. The claim asks that a PDF whose parse fails gives a result with
  the empty string as text. For the PDF response of \<^verbatim>\<open>https://example.com/\<close> the
  handler answers \<open>Error: body used already for: https://example.com/\<close> with
  \<^verbatim>\<open>isError: true\<close>, both when the parse would throw \<open>Invalid PDF structure\<close> and
  when it would resolve to nothing: the text of the answer is not empty, and the
  fallback \<^verbatim>\<open>?.text || ""\<close> of the source is never reached.
\<close>

theorem pdf_body_read_twice:
  "fetchUrl (demo_world (Inr demo_pdf) [] [] (Inl (Error ''Invalid PDF structure'')))
      ''https://example.com/'' DEFAULT_USER_AGENT_AUTONOMOUS False
     = Inl (Error ''body used already for: https://example.com/'') \<and>
   handler (demo_world (Inr demo_pdf) [] [] (Inl (Error ''Invalid PDF structure'')))
      ''fetch'' (demo_args 0 20000)
     = \<lparr>result_text = ''Error: body used already for: https://example.com/'', isError = True\<rparr> \<and>
   handler (demo_world (Inr demo_pdf) [] [] (Inr None)) ''fetch'' (demo_args 0 20000)
     = \<lparr>result_text = ''Error: body used already for: https://example.com/'', isError = True\<rparr> \<and>
   result_text (handler (demo_world (Inr demo_pdf) [] [] (Inl (Error ''Invalid PDF structure'')))
      ''fetch'' (demo_args 0 20000)) \<noteq> []"
  by (simp add: handler_def handler_try_def FetchArgsSchema_safeParse_def FetchArgsSchema_numbers_def
      demo_args_def fetchUrl_def response_text_def response_arrayBuffer_def body_used_already_def
      demo_world_def demo_response_def demo_pdf_def or_empty_def toLowerCase_def lower_char_def)

end
